theory Spec2Isabelle
  imports Main "HOL-Library.Sublist"
begin

section \<open>JavaScript strings\<close>

text \<open>
  A string is a list of code units; the model covers the code units below U+0100 (the
  Latin-1 range), one HOL \<open>char\<close> each. In that range the whitespace of \<open>trim\<close> and of
  the regular-expression class \<open>\s\<close> is TAB, LF, VT, FF, CR, SPACE and NBSP; \<open>\w\<close> is
  \<open>[A-Za-z0-9_]\<close>; \<open>\d\<close> is \<open>[0-9]\<close>; \<open>toLowerCase\<close> moves \<open>A-Z\<close> and the accented
  capitals U+00C0..U+00DE (without the multiplication sign U+00D7) up by 32.
\<close>

definition isWhiteSpace :: "char \<Rightarrow> bool" where
  "isWhiteSpace c = ((of_char c :: nat) \<in> {9, 10, 11, 12, 13, 32, 160})"

definition isDigit :: "char \<Rightarrow> bool" where
  "isDigit c = (48 \<le> (of_char c :: nat) \<and> (of_char c :: nat) \<le> 57)"

definition isWordChar :: "char \<Rightarrow> bool" where
  "isWordChar c = (let n = (of_char c :: nat) in
     (48 \<le> n \<and> n \<le> 57) \<or> (65 \<le> n \<and> n \<le> 90) \<or> n = 95 \<or> (97 \<le> n \<and> n \<le> 122))"

definition toLowerCase_char :: "char \<Rightarrow> char" where
  "toLowerCase_char c = (let n = (of_char c :: nat) in
     if (65 \<le> n \<and> n \<le> 90) \<or> (192 \<le> n \<and> n \<le> 222 \<and> n \<noteq> 215)
     then char_of (n + 32) else c)"

definition js_toLowerCase :: "string \<Rightarrow> string" where
  "js_toLowerCase s = map toLowerCase_char s"

definition js_trim :: "string \<Rightarrow> string" where
  "js_trim s = rev (dropWhile isWhiteSpace (rev (dropWhile isWhiteSpace s)))"

text \<open>\<open>s.includes(w)\<close>: \<open>w\<close> occurs in \<open>s\<close> as a contiguous substring.\<close>

fun js_includes :: "string \<Rightarrow> string \<Rightarrow> bool" where
  "js_includes [] w = (w = [])"
| "js_includes (c # cs) w = (prefix w (c # cs) \<or> js_includes cs w)"

text \<open>\<open>s.replace(pat, rep)\<close> with a string pattern: the first occurrence only.\<close>

fun js_replace :: "string \<Rightarrow> string \<Rightarrow> string \<Rightarrow> string" where
  "js_replace pat rep [] = (if pat = [] then rep else [])"
| "js_replace pat rep (c # cs) =
     (if prefix pat (c # cs) then rep @ drop (length pat) (c # cs)
      else c # js_replace pat rep cs)"

text \<open>\<open>parts.join(' ')\<close>.\<close>

fun js_join :: "string list \<Rightarrow> string" where
  "js_join [] = []"
| "js_join [s] = s"
| "js_join (s # t # ts) = s @ '' '' @ js_join (t # ts)"

text \<open>Decimal rendering of a number inside a template literal.\<close>

definition digit_char :: "nat \<Rightarrow> char" where
  "digit_char k = char_of (48 + k)"

fun show_nat :: "nat \<Rightarrow> string" where
  "show_nat n = (if n < 10 then [digit_char n] else show_nat (n div 10) @ [digit_char (n mod 10)])"

declare show_nat.simps [simp del]

definition show_int :: "int \<Rightarrow> string" where
  "show_int i = (if i < 0 then CHR ''-'' # show_nat (nat (- i)) else show_nat (nat i))"

text \<open>
  \<open>parseInt(s)\<close> with no radix: leading whitespace is skipped, one sign is read, a
  \<open>0x\<close>/\<open>0X\<close> prefix selects radix 16, and the longest run of digits of the radix is the
  value; no digit at all is \<open>NaN\<close>, here \<open>None\<close>. The value is the exact integer: the
  handlers only test it for zero and compare it with the numbers 1 to 10, which the
  rounding of large values to doubles does not affect.
\<close>

definition isHexDigit :: "char \<Rightarrow> bool" where
  "isHexDigit c = (let n = (of_char c :: nat) in
     (48 \<le> n \<and> n \<le> 57) \<or> (65 \<le> n \<and> n \<le> 70) \<or> (97 \<le> n \<and> n \<le> 102))"

definition digit_value :: "char \<Rightarrow> nat" where
  "digit_value c = (let n = (of_char c :: nat) in
     if n \<le> 57 then n - 48 else if n \<le> 70 then n - 55 else n - 87)"

definition digits_value :: "nat \<Rightarrow> string \<Rightarrow> nat" where
  "digits_value radix ds = foldl (\<lambda>acc c. radix * acc + digit_value c) 0 ds"

definition parseInt_unsigned :: "string \<Rightarrow> nat option" where
  "parseInt_unsigned s =
     (if prefix ''0x'' s \<or> prefix ''0X'' s then
        (let ds = takeWhile isHexDigit (drop 2 s)
         in if ds = [] then None else Some (digits_value 16 ds))
      else
        (let ds = takeWhile isDigit s
         in if ds = [] then None else Some (digits_value 10 ds)))"

definition parseInt :: "string \<Rightarrow> int option" where
  "parseInt s =
     (case dropWhile isWhiteSpace s of
        [] \<Rightarrow> None
      | c # cs \<Rightarrow>
          if c = CHR ''-'' then map_option (\<lambda>v. - int v) (parseInt_unsigned cs)
          else if c = CHR ''+'' then map_option int (parseInt_unsigned cs)
          else map_option int (parseInt_unsigned (c # cs)))"

section \<open>Regular expressions of the voting handler\<close>

text \<open>
  \<open>/kw\s*(\d+)/i\<close> for a lower-case ASCII keyword \<open>kw\<close>: the value is capture group 1
  of the leftmost match, \<open>None\<close> when \<open>match\<close> returns \<open>null\<close>. At a start position
  the keyword is compared ignoring ASCII case, \<open>\s*\<close> takes the whole run of whitespace
  (whitespace and digits are disjoint, so giving some back never helps) and \<open>\d+\<close>
  takes the whole run of digits, which must not be empty.
\<close>

definition match_keyword_at :: "string \<Rightarrow> string \<Rightarrow> string option" where
  "match_keyword_at kw s =
     (if prefix kw (js_toLowerCase s) then
        (let ds = takeWhile isDigit (dropWhile isWhiteSpace (drop (length kw) s))
         in if ds = [] then None else Some ds)
      else None)"

fun regex_keyword_number :: "string \<Rightarrow> string \<Rightarrow> string option" where
  "regex_keyword_number kw [] = None"
| "regex_keyword_number kw (c # cs) =
     (case match_keyword_at kw (c # cs) of
        Some ds \<Rightarrow> Some ds
      | None \<Rightarrow> regex_keyword_number kw cs)"

text \<open>
  \<open>/\b(\d+)\b/\<close>: a run of digits with a word boundary on both sides. The first
  argument is the code unit before the position (\<open>None\<close> at the start of the string).
  A digit is a word character, so the boundary in front needs a non-word character or
  the start of the string before the digit, and the boundary behind needs the whole
  run of digits followed by a non-word character or the end of the string.
\<close>

fun regex_standalone_number :: "char option \<Rightarrow> string \<Rightarrow> string option" where
  "regex_standalone_number prev [] = None"
| "regex_standalone_number prev (c # cs) =
     (if isDigit c
         \<and> (case prev of None \<Rightarrow> True | Some p \<Rightarrow> \<not> isWordChar p)
         \<and> (case dropWhile isDigit cs of [] \<Rightarrow> True | r # _ \<Rightarrow> \<not> isWordChar r)
      then Some (c # takeWhile isDigit cs)
      else regex_standalone_number (Some c) cs)"

text \<open>\<open>text.replace(/\s+/g, ' ')\<close>: every maximal run of whitespace becomes one space.\<close>

function collapse_whitespace :: "string \<Rightarrow> string" where
  "collapse_whitespace [] = []"
| "collapse_whitespace (c # cs) =
     (if isWhiteSpace c then CHR '' '' # collapse_whitespace (dropWhile isWhiteSpace cs)
      else c # collapse_whitespace cs)"
  by pat_completeness auto
termination
  by (relation "measure length") (auto simp: le_imp_less_Suc length_dropWhile_le)

section \<open>The interaction surface and the effects of a handler\<close>

text \<open>
  An element of the page is a \<open>node\<close>. What a handler does is the list of its calls to
  its collaborators, in order: speech, clicks, navigation, timers, the recognition
  engine and the status display. A \<open>task\<close> is the body of a \<open>setTimeout\<close> callback.
\<close>

type_synonym node = nat

datatype task =
    RetryFindVote int
  | ClickVote node
  | ClickVoteGuarded node
  | ClickConfirmGuarded node
  | RestartIfAlwaysOn
  | RestartRecognition

datatype effect =
    Speak string
  | Click node
  | CallOnclick node
  | DispatchClick node
  | SetValue node string
  | RedirectTo string
  | SetLocation string
  | ClearSession
  | SetTimeout task nat
  | NewRecognition
  | RecognitionStart
  | RecognitionStop
  | VoiceStatus string bool
  | ShowVoiceError string

text \<open>
  The surface answers the document queries of \<^verbatim>\<open>voice.js\<close> and gives the properties of
  the elements the handlers read. \<open>has_redirectTo\<close> and \<open>has_clearSession\<close> are the tests
  \<^verbatim>\<open>typeof redirectTo === 'function'\<close> and \<^verbatim>\<open>typeof clearSession === 'function'\<close>;
  \<open>speech_supported\<close> is whether the browser has a \<open>SpeechRecognition\<close> constructor.
  \<open>throws\<close> says which calls into the page or the engine raise an exception.
\<close>

record surface =
  getElementById :: "string \<Rightarrow> node option"
  querySelector :: "string \<Rightarrow> node option"
  querySelectorAll :: "string \<Rightarrow> node list"
  elQuerySelector :: "node \<Rightarrow> string \<Rightarrow> node option"
  closest :: "node \<Rightarrow> string \<Rightarrow> node option"
  getAttribute :: "node \<Rightarrow> string \<Rightarrow> string option"
  el_id :: "node \<Rightarrow> string"
  disabled :: "node \<Rightarrow> bool"
  style_display :: "node \<Rightarrow> string"
  innerText :: "node \<Rightarrow> string"
  textContent :: "node \<Rightarrow> string"
  has_onclick :: "node \<Rightarrow> bool"
  has_redirectTo :: bool
  has_clearSession :: bool
  speech_supported :: bool
  throws :: "effect \<Rightarrow> bool"

text \<open>
  A run is the effects of a piece of code and whether it ended by raising an exception.
  \<open>speak\<close> guards its use of the synthesis API and raises nothing; \<open>perform\<close> is a call
  that the surface may let raise; \<open>andThen\<close> is sequencing: nothing runs after a raise.
\<close>

type_synonym run = "effect list \<times> bool"

definition skip :: run where
  "skip = ([], False)"

definition emit :: "effect \<Rightarrow> run" where
  "emit e = ([e], False)"

definition speak :: "string \<Rightarrow> run" where
  "speak t = emit (Speak t)"

definition perform :: "surface \<Rightarrow> effect \<Rightarrow> run" where
  "perform d e = ([e], throws d e)"

fun andThen :: "run \<Rightarrow> run \<Rightarrow> run" where
  "andThen (es, True) r = (es, True)"
| "andThen (es, False) (fs, b) = (es @ fs, b)"

text \<open>\<open>try { body } catch (error) { handler }\<close>.\<close>

fun tryCatch :: "run \<Rightarrow> run \<Rightarrow> run" where
  "tryCatch (es, True) handler = andThen (es, False) handler"
| "tryCatch (es, False) handler = (es, False)"

text \<open>
  The lookup chains \<^verbatim>\<open>let x = a; if (!x) x = b; if (!x) x = c; ...\<close>: the first
  lookup that finds an element wins.
\<close>

fun firstFound :: "'a option list \<Rightarrow> 'a option" where
  "firstFound [] = None"
| "firstFound (Some x # rest) = Some x"
| "firstFound (None # rest) = firstFound rest"

definition visible :: "surface \<Rightarrow> node \<Rightarrow> bool" where
  "visible d e = (style_display d e \<noteq> ''none'')"

section \<open>Login, home and face-verification handlers\<close>

definition handleLoginCommands :: "surface \<Rightarrow> string \<Rightarrow> run" where
  "handleLoginCommands d command =
     (if js_includes command ''login'' \<or> js_includes command ''log in'' then
        (case getElementById d ''btn-login'' of
           Some loginBtn \<Rightarrow> andThen (speak ''Logging in...'') (perform d (Click loginBtn))
         | None \<Rightarrow> skip)
      else if js_includes command ''clear'' then
        andThen (case getElementById d ''aadhar-input'' of
                   Some aadharInput \<Rightarrow> emit (SetValue aadharInput [])
                 | None \<Rightarrow> skip)
       (andThen (case getElementById d ''password-input'' of
                   Some passwordInput \<Rightarrow> emit (SetValue passwordInput [])
                 | None \<Rightarrow> skip)
                (speak ''Form cleared.''))
      else if js_includes command ''back'' then speak ''You are on the login page.''
      else speak ''Say \"Login\" to proceed, or \"Clear\" to clear the form.'')"

definition readPageContent :: "surface \<Rightarrow> run" where
  "readPageContent d =
     (case firstFound [querySelector d ''main'', querySelector d ''.container'',
                       querySelector d ''.content-center''] of
        None \<Rightarrow> speak ''No content found to read.''
      | Some mainContent \<Rightarrow>
          (let txt = (if innerText d mainContent \<noteq> [] then innerText d mainContent
                      else textContent d mainContent);
               cleanText = js_trim (collapse_whitespace txt)
           in if cleanText \<noteq> [] then speak cleanText
              else speak ''No content available to read.''))"

definition handleLogoutCommand :: "surface \<Rightarrow> run" where
  "handleLogoutCommand d =
     andThen (speak ''Logging out...'')
    (andThen (if has_clearSession d then perform d ClearSession else skip)
             (if has_redirectTo d then perform d (RedirectTo ''index.html'')
              else perform d (SetLocation ''index.html'')))"

definition handleHomeCommands :: "surface \<Rightarrow> string \<Rightarrow> run" where
  "handleHomeCommands d command =
     (if js_includes command ''voting page'' \<or> js_includes command ''vote now''
         \<or> js_includes command ''go to voting'' then
        (case querySelector d ''a[href=\"voting.html\"]'' of
           Some voteLink \<Rightarrow>
             andThen (speak ''Navigating to voting page...'') (perform d (Click voteLink))
         | None \<Rightarrow> if has_redirectTo d then perform d (RedirectTo ''voting.html'') else skip)
      else if js_includes command ''read rules'' \<or> js_includes command ''rules'' then
        readPageContent d
      else if js_includes command ''log out'' \<or> js_includes command ''logout'' then
        handleLogoutCommand d
      else if js_includes command ''profile'' \<or> js_includes command ''open profile'' then
        (case getElementById d ''btn-profile'' of
           Some profileBtn \<Rightarrow> perform d (Click profileBtn)
         | None \<Rightarrow> skip)
      else if js_includes command ''home'' then speak ''You are already on the home page.''
      else speak
        ''Say \"Go to voting page\", \"Read rules\", \"Open profile\", or \"Log out\".'')"

definition handleFaceVerificationCommands :: "surface \<Rightarrow> string \<Rightarrow> run" where
  "handleFaceVerificationCommands d command =
     (if js_includes command ''start'' \<or> js_includes command ''verify''
         \<or> js_includes command ''begin'' then
        (case getElementById d ''btn-start-verification'' of
           Some startBtn \<Rightarrow>
             andThen (speak ''Starting face verification...'') (perform d (Click startBtn))
         | None \<Rightarrow> skip)
      else if js_includes command ''retry'' \<or> js_includes command ''try again'' then
        (case getElementById d ''btn-retry'' of
           Some retryBtn \<Rightarrow> perform d (Click retryBtn)
         | None \<Rightarrow> skip)
      else speak ''Say \"Start verification\" to begin face recognition.'')"

section \<open>The voting handler\<close>

subsection \<open>Verification, confirmation and cancellation\<close>

definition votingVisible :: "surface \<Rightarrow> bool" where
  "votingVisible d =
     (case getElementById d ''voting-section'' of
        Some votingSection \<Rightarrow> visible d votingSection
      | None \<Rightarrow> False)"

definition verifyIdentity :: "surface \<Rightarrow> run" where
  "verifyIdentity d =
     (case getElementById d ''btn-verify-face'' of
        Some verifyBtn \<Rightarrow>
          (let isSectionVisible =
                 (case getElementById d ''face-verify-section'' of
                    None \<Rightarrow> True
                  | Some verifySection \<Rightarrow> visible d verifySection)
           in if isSectionVisible \<and> \<not> disabled d verifyBtn then
                andThen (speak ''Starting identity verification...'')
                        (perform d (Click verifyBtn))
              else if disabled d verifyBtn then
                speak ''Verification is already in progress. Please wait.''
              else
                andThen (speak ''Starting identity verification...'')
                        (perform d (Click verifyBtn)))
      | None \<Rightarrow> speak ''Verify button not found. Please refresh the page.'')"

definition confirmLookups :: "surface \<Rightarrow> node option list" where
  "confirmLookups d =
     [getElementById d ''modal-confirm-btn'',
      querySelector d ''#confirmation-modal .btn-success'',
      querySelector d ''#confirmation-modal [data-action=\"confirm\"]'',
      querySelector d ''.modal-overlay .btn-success'',
      querySelector d ''.modal-content .btn-success'']"

definition findConfirmButton :: "surface \<Rightarrow> node option" where
  "findConfirmButton d = firstFound (confirmLookups d)"

definition confirmVote :: "surface \<Rightarrow> run" where
  "confirmVote d =
     (case findConfirmButton d of
        Some confirmBtn \<Rightarrow>
          andThen (speak ''Confirming your vote...'')
                  (emit (SetTimeout (ClickConfirmGuarded confirmBtn) 300))
      | None \<Rightarrow>
          if votingVisible d then
            speak (''Please select a candidate first by saying \"Vote for candidate\" ''
                   @ ''followed by the number.'')
          else skip)"

definition cancelLookups :: "surface \<Rightarrow> node option list" where
  "cancelLookups d =
     [getElementById d ''modal-cancel-btn'',
      querySelector d ''#confirmation-modal .btn-secondary'',
      querySelector d ''#confirmation-modal [data-action=\"cancel\"]'',
      querySelector d ''.modal-overlay .btn-secondary'',
      querySelector d ''.modal-content .btn-secondary'']"

definition findCancelButton :: "surface \<Rightarrow> node option" where
  "findCancelButton d = firstFound (cancelLookups d)"

subsection \<open>The candidate number of a command\<close>

definition patterns :: "(string \<Rightarrow> string option) list" where
  "patterns =
     [regex_keyword_number ''candidate'',
      regex_keyword_number ''number'',
      regex_keyword_number ''vote'',
      regex_keyword_number ''select'',
      regex_keyword_number ''choose'',
      regex_standalone_number None]"

definition wordNumbers :: "(string \<times> int) list" where
  "wordNumbers =
     [(''one'', 1), (''two'', 2), (''three'', 3), (''four'', 4), (''five'', 5),
      (''six'', 6), (''seven'', 7), (''eight'', 8), (''nine'', 9), (''ten'', 10)]"

text \<open>
  The first loop: the first pattern that matches sets the number to \<open>parseInt\<close> of its
  group. \<open>None\<close> is the initial \<open>null\<close> (or \<open>NaN\<close>).
\<close>

definition numericMatch :: "string \<Rightarrow> int option" where
  "numericMatch command =
     (case firstFound (map (\<lambda>pattern. pattern command) patterns) of
        Some group1 \<Rightarrow> parseInt group1
      | None \<Rightarrow> None)"

text \<open>The second loop: the first entry of the table whose word the command includes.\<close>

definition wordMatch :: "string \<Rightarrow> int option" where
  "wordMatch command =
     map_option snd (find (\<lambda>(word, num). js_includes command word) wordNumbers)"

text \<open>\<open>!candidateNumber\<close>: \<open>null\<close>, \<open>NaN\<close> and \<open>0\<close> are falsy.\<close>

definition falsy :: "int option \<Rightarrow> bool" where
  "falsy n = (n = None \<or> n = Some 0)"

text \<open>The value of \<open>candidateNumber\<close> after both loops (lines 489 to 526).\<close>

definition extractOrdinal :: "string \<Rightarrow> int option" where
  "extractOrdinal command =
     (let candidateNumber = numericMatch command
      in if falsy candidateNumber then
           (case wordMatch command of
              Some num \<Rightarrow> Some num
            | None \<Rightarrow> candidateNumber)
         else candidateNumber)"

subsection \<open>The vote gate and the vote button\<close>

definition isVoteCommand :: "surface \<Rightarrow> string \<Rightarrow> int \<Rightarrow> bool" where
  "isVoteCommand d command candidateNumber =
     (js_includes command ''vote''
      \<or> js_includes command ''select''
      \<or> js_includes command ''choose''
      \<or> (votingVisible d
           \<and> (js_includes command ''candidate'' \<or> js_includes command ''number''))
      \<or> list_ex (\<lambda>word. js_includes command word) (map fst wordNumbers)
      \<or> (votingVisible d \<and> candidateNumber \<noteq> 0))"

text \<open>\<open>a || b\<close> on strings that may be \<open>null\<close> or \<open>undefined\<close>: the empty string is falsy.\<close>

definition truthy :: "string option \<Rightarrow> bool" where
  "truthy a = (a \<noteq> None \<and> a \<noteq> Some [])"

definition js_or :: "string option \<Rightarrow> string option \<Rightarrow> string option" where
  "js_or a b = (if truthy a then a else b)"

definition buttonNumber :: "surface \<Rightarrow> node \<Rightarrow> string option" where
  "buttonNumber d btn =
     js_or (getAttribute d btn ''data-candidate-number'')
    (js_or (case closest d btn ''[data-candidate-number]'' of
              Some ancestor \<Rightarrow> getAttribute d ancestor ''data-candidate-number''
            | None \<Rightarrow> None)
           (Some (js_replace ''vote-btn-'' [] (el_id d btn))))"

definition findVoteButton :: "surface \<Rightarrow> int \<Rightarrow> node option" where
  "findVoteButton d candidateNumber =
     (let n = show_int candidateNumber
      in firstFound
        [querySelector d (''[data-candidate-number=\"'' @ n @ ''\"] .btn-vote''),
         querySelector d (''.card[data-candidate-number=\"'' @ n @ ''\"] .btn-vote''),
         querySelector d (''[data-candidate-number=\"'' @ n @ ''\"] button''),
         querySelector d (''.btn-vote[data-candidate-number=\"'' @ n @ ''\"]''),
         getElementById d (''vote-btn-'' @ n),
         find (\<lambda>btn. case buttonNumber d btn of
                        Some btnNum \<Rightarrow> btnNum \<noteq> [] \<and> parseInt btnNum = Some candidateNumber
                      | None \<Rightarrow> False)
              (querySelectorAll d ''.btn-vote'')])"

text \<open>
  The body of \<^verbatim>\<open>if (isVoteCommand)\<close> (lines 553 to 645): one lookup; without a
  button the retry is put on a timer of 200 ms and the handler returns.
\<close>

definition voteForCandidate :: "surface \<Rightarrow> int \<Rightarrow> run" where
  "voteForCandidate d candidateNumber =
     (case findVoteButton d candidateNumber of
        None \<Rightarrow> emit (SetTimeout (RetryFindVote candidateNumber) 200)
      | Some voteBtn \<Rightarrow>
          andThen (speak (''Voting for candidate '' @ show_int candidateNumber @ ''...''))
                  (emit (SetTimeout (ClickVoteGuarded voteBtn) 300)))"

subsection \<open>Reading the list, going back, help\<close>

definition textOr :: "surface \<Rightarrow> node \<Rightarrow> string \<Rightarrow> string \<Rightarrow> string" where
  "textOr d cardEl selector dflt =
     (case elQuerySelector d cardEl selector of
        Some el \<Rightarrow> if textContent d el \<noteq> [] then textContent d el else dflt
      | None \<Rightarrow> dflt)"

definition readCandidateList :: "surface \<Rightarrow> run" where
  "readCandidateList d =
     (let candidates = querySelectorAll d ''.card''
      in if candidates = [] then speak ''No candidates found.''
         else speak
           (''There are '' @ show_nat (length candidates) @ '' candidates. ''
            @ concat (map (\<lambda>(cardEl, index).
                ''Candidate '' @ show_nat (index + 1) @ '': ''
                @ textOr d cardEl ''.card-title'' (''Candidate '' @ show_nat (index + 1))
                @ ''. '' @ textOr d cardEl ''.card-subtitle'' []
                @ ''. '' @ textOr d cardEl ''.card-description'' [] @ ''. '')
              (zip candidates [0 ..< length candidates]))))"

definition goBack :: "surface \<Rightarrow> run" where
  "goBack d =
     (if has_redirectTo d then
        andThen (speak ''Going back to home page...'') (perform d (RedirectTo ''home.html''))
      else skip)"

definition votingHelp :: "surface \<Rightarrow> run" where
  "votingHelp d =
     (if (case getElementById d ''face-verify-section'' of
            Some verifySection \<Rightarrow> visible d verifySection | None \<Rightarrow> False) then
        speak ''Say \"Verify identity\" to begin verification, or \"Go back\" to return to home.''
      else if votingVisible d then
        speak (''Say \"Vote for candidate\" followed by the number, ''
               @ ''\"Read candidate list\", or \"Go back\".'')
      else
        speak (''Say \"Verify identity\" to begin, \"Vote for candidate\" followed by ''
               @ ''the number, or \"Read candidate list\".''))"

subsection \<open>The handler\<close>

text \<open>The commands after the vote block (from line 648): list, back, help.\<close>

definition otherVotingCommands :: "surface \<Rightarrow> string \<Rightarrow> run" where
  "otherVotingCommands d command =
     (if js_includes command ''read candidate''
         \<or> js_includes command ''candidate list''
         \<or> js_includes command ''list candidates'' then readCandidateList d
      else if js_includes command ''go back'' \<or> js_includes command ''back''
              \<or> js_includes command ''return'' then goBack d
      else votingHelp d)"

text \<open>
  The part of the handler after the confirm and cancel blocks (from line 489): the
  candidate number, the range check and the vote gate; a command that is not a vote
  goes on to the other commands.
\<close>

definition afterCancel :: "surface \<Rightarrow> string \<Rightarrow> run" where
  "afterCancel d command =
     (case extractOrdinal command of
        Some candidateNumber \<Rightarrow>
          if candidateNumber \<noteq> 0 \<and> 1 \<le> candidateNumber \<and> candidateNumber \<le> 10
             \<and> isVoteCommand d command candidateNumber then
            voteForCandidate d candidateNumber
          else otherVotingCommands d command
      | None \<Rightarrow> otherVotingCommands d command)"

text \<open>The conditions of the first three blocks of the handler (lines 379, 411, 463).\<close>

definition verifyCommand :: "string \<Rightarrow> bool" where
  "verifyCommand command =
     (js_includes command ''verify identity'' \<or> js_includes command ''verify''
      \<or> js_includes command ''start verification''
      \<or> js_includes command ''begin verification'')"

definition confirmCommand :: "string \<Rightarrow> bool" where
  "confirmCommand command =
     (js_includes command ''confirm'' \<or> js_includes command ''yes''
      \<or> js_includes command ''confirm vote'')"

definition cancelCommand :: "string \<Rightarrow> bool" where
  "cancelCommand command = (js_includes command ''cancel'' \<or> js_includes command ''no'')"

definition handleVotingCommands :: "surface \<Rightarrow> string \<Rightarrow> run" where
  "handleVotingCommands d command =
     (if verifyCommand command then verifyIdentity d
      else if confirmCommand command then confirmVote d
      else if cancelCommand command then
        (case findCancelButton d of
           Some cancelBtn \<Rightarrow>
             andThen (speak ''Vote cancelled.'') (perform d (Click cancelBtn))
         | None \<Rightarrow> afterCancel d command)
      else afterCancel d command)"

section \<open>Normalisation and routing\<close>

definition normalizeCommand :: "string \<Rightarrow> string" where
  "normalizeCommand txt =
     filter (\<lambda>c. isWordChar c \<or> isWhiteSpace c) (js_trim (js_toLowerCase txt))"

definition handleVoiceCommand :: "surface \<Rightarrow> string \<Rightarrow> string \<Rightarrow> run" where
  "handleVoiceCommand d currentPage command =
     (let normalized = normalizeCommand command;
          verifyBtn = getElementById d ''btn-verify-face'';
          votingSection = getElementById d ''voting-section'';
          candidatesContainer = getElementById d ''candidates-container''
      in if verifyBtn \<noteq> None \<or> votingSection \<noteq> None \<or> candidatesContainer \<noteq> None then
           handleVotingCommands d normalized
         else if currentPage = ''login'' then handleLoginCommands d normalized
         else if currentPage = ''home'' then handleHomeCommands d normalized
         else if currentPage = ''voting'' then handleVotingCommands d normalized
         else if currentPage = ''face-verification'' then
           handleFaceVerificationCommands d normalized
         else if verifyBtn \<noteq> None \<or> votingSection \<noteq> None then
           handleVotingCommands d normalized
         else skip)"

section \<open>The listening session\<close>

record session =
  recognition :: bool
  isListening :: bool
  isAlwaysOn :: bool
  currentPage :: string

definition voiceStatus :: "session \<Rightarrow> effect" where
  "voiceStatus s =
     VoiceStatus
       (if isAlwaysOn s \<and> isListening s then ''Voice: Listening (Always On)''
        else if isAlwaysOn s then ''Voice: Starting...''
        else ''Voice: Off'')
       (isAlwaysOn s \<and> isListening s)"

text \<open>
  \<open>initSpeechRecognition\<close>: the new session and the returned success status. The
  handle is created only where the constructor exists and does not raise.
\<close>

definition initSpeechRecognition :: "surface \<Rightarrow> session \<Rightarrow> session \<times> bool \<times> effect list" where
  "initSpeechRecognition d s =
     (if \<not> speech_supported d then (s, False, [])
      else if throws d NewRecognition then (s, False, [NewRecognition])
      else (s\<lparr>recognition := True\<rparr>, True, [NewRecognition]))"

definition startListening :: "surface \<Rightarrow> session \<Rightarrow> session \<times> effect list" where
  "startListening d s =
     (let (s1, initialised, es) =
            (if recognition s then (s, True, []) else initSpeechRecognition d s)
      in if \<not> initialised then
           (s1, es @ [ShowVoiceError ''Speech recognition is not available in this browser.''])
         else if throws d RecognitionStart then (s1, es @ [RecognitionStart])
         else (let s2 = s1\<lparr>isListening := True\<rparr>
               in (s2, es @ [RecognitionStart, voiceStatus s2])))"

definition stopListening :: "surface \<Rightarrow> session \<Rightarrow> session \<times> effect list" where
  "stopListening d s =
     (if recognition s \<and> isListening s then
        (if throws d RecognitionStop then (s, [RecognitionStop])
         else (let s1 = s\<lparr>isListening := False\<rparr>
               in (s1, [RecognitionStop, voiceStatus s1])))
      else (s, []))"

definition setAlwaysOnMode :: "surface \<Rightarrow> bool \<Rightarrow> session \<Rightarrow> session \<times> effect list" where
  "setAlwaysOnMode d enabled s =
     (let s1 = s\<lparr>isAlwaysOn := enabled\<rparr>;
          (s2, es) = (if enabled then startListening d s1 else stopListening d s1)
      in (s2, es @ [voiceStatus s2]))"

definition toggleVoiceAssistance :: "surface \<Rightarrow> session \<Rightarrow> session \<times> effect list" where
  "toggleVoiceAssistance d s =
     (if isAlwaysOn s then
        (let (s1, es) = setAlwaysOnMode d False s
         in (s1, es @ [Speak ''Voice assistance turned off.'']))
      else
        (let (s1, es) = setAlwaysOnMode d True s
         in (s1, es @ [Speak ''Voice assistance turned on. I am listening.''])))"

subsection \<open>The callbacks of the recognition engine\<close>


text \<open>
  \<open>onresult\<close>: the transcripts of the results are joined and trimmed, and the command
  is dispatched inside \<open>try\<close>; the second component of the run is whether an exception
  leaves the callback.
\<close>

definition onresult :: "surface \<Rightarrow> string list \<Rightarrow> session \<Rightarrow> session \<times> run" where
  "onresult d transcripts s =
     (let transcript = js_trim (js_join transcripts)
      in (s, tryCatch (handleVoiceCommand d (currentPage s) transcript)
               (speak ''Sorry, there was an error processing your command. Please try again.'')))"






subsection \<open>Timer callbacks\<close>

text \<open>
  What a \<open>setTimeout\<close> callback does when it fires, on the surface and the session of
  that moment. The retry of the vote lookup (lines 597 to 610) looks the button up
  once more and either announces the vote or reports that the candidate was not found.
\<close>

definition clickGuarded :: "surface \<Rightarrow> node \<Rightarrow> run" where
  "clickGuarded d btn =
     tryCatch (perform d (Click btn))
       (if has_onclick d btn then perform d (CallOnclick btn)
        else perform d (DispatchClick btn))"

definition fire :: "surface \<Rightarrow> session \<Rightarrow> task \<Rightarrow> run" where
  "fire d s t =
     (case t of
        RetryFindVote candidateNumber \<Rightarrow>
          (case findVoteButton d candidateNumber of
             Some voteBtn \<Rightarrow>
               andThen (speak (''Voting for candidate '' @ show_int candidateNumber @ ''...''))
                       (emit (SetTimeout (ClickVote voteBtn) 300))
           | None \<Rightarrow>
               speak (''Candidate '' @ show_int candidateNumber
                      @ '' not found. Please check the candidate list or try again.''))
      | ClickVote voteBtn \<Rightarrow> perform d (Click voteBtn)
      | ClickVoteGuarded voteBtn \<Rightarrow> clickGuarded d voteBtn
      | ClickConfirmGuarded confirmBtn \<Rightarrow> clickGuarded d confirmBtn
      | RestartIfAlwaysOn \<Rightarrow>
          if isAlwaysOn s then tryCatch (perform d RecognitionStart) skip else skip
      | RestartRecognition \<Rightarrow> tryCatch (perform d RecognitionStart) skip)"

section \<open>The core script: votes and login validation\<close>

text \<open>
  \<open>localStorage\<close> is a map from keys to strings. \<open>JSON.parse\<close>, \<open>JSON.stringify\<close>, the
  clock and the storage quota belong to the browser and are parameters: \<open>JSON_parse\<close>
  is \<open>None\<close> where \<open>JSON.parse\<close> raises a \<open>SyntaxError\<close>, \<open>setItem_throws\<close> is where
  \<open>setItem\<close> raises (a full store).
\<close>

type_synonym storage = "string \<rightharpoonup> string"

datatype json =
    JNull
  | JBool bool
  | JNumber int
  | JString string
  | JArray "json list"
  | JObject "(string \<times> json) list"

record browser =
  JSON_parse :: "string \<Rightarrow> json option"
  JSON_stringify :: "json \<Rightarrow> string"
  setItem_throws :: "string \<Rightarrow> string \<Rightarrow> bool"
  Date_now :: int
  Date_toISOString :: string

definition VOTES :: string where
  "VOTES = ''votes''"

definition HAS_VOTED_PREFIX :: string where
  "HAS_VOTED_PREFIX = ''has_voted_''"

definition setItem :: "browser \<Rightarrow> storage \<Rightarrow> string \<Rightarrow> string \<Rightarrow> storage option" where
  "setItem b ls k v = (if setItem_throws b k v then None else Some (ls(k \<mapsto> v)))"

definition hasUserVoted :: "storage \<Rightarrow> string \<Rightarrow> bool" where
  "hasUserVoted ls aadhar = (ls (HAS_VOTED_PREFIX @ aadhar) = Some ''true'')"

definition markUserAsVoted :: "browser \<Rightarrow> storage \<Rightarrow> string \<Rightarrow> storage option" where
  "markUserAsVoted b ls aadhar = setItem b ls (HAS_VOTED_PREFIX @ aadhar) ''true''"

text \<open>\<open>getVotes\<close>: \<open>None\<close> where \<open>JSON.parse\<close> raises.\<close>

definition getVotes :: "browser \<Rightarrow> storage \<Rightarrow> json option" where
  "getVotes b ls =
     (case ls VOTES of
        None \<Rightarrow> Some (JArray [])
      | Some stored \<Rightarrow> if stored = [] then Some (JArray []) else JSON_parse b stored)"

definition voteRecord :: "browser \<Rightarrow> string \<Rightarrow> json \<Rightarrow> json" where
  "voteRecord b aadhar candidate =
     JObject [(''aadhar'', JString aadhar), (''candidate'', candidate),
              (''timestamp'', JNumber (Date_now b)), (''date'', JString (Date_toISOString b))]"

text \<open>
  \<open>storeVote\<close>: the returned status and the store it leaves. Everything runs inside
  \<open>try\<close>: a parse error, a stored value that is not an array (\<open>votes.push\<close> is then
  not a function) and a refused write all end in \<open>false\<close>.
\<close>

definition storeVote :: "browser \<Rightarrow> storage \<Rightarrow> string \<Rightarrow> json \<Rightarrow> bool \<times> storage" where
  "storeVote b ls aadhar candidate =
     (case getVotes b ls of
        Some (JArray votes) \<Rightarrow>
          (case setItem b ls VOTES
                  (JSON_stringify b (JArray (votes @ [voteRecord b aadhar candidate]))) of
             None \<Rightarrow> (False, ls)
           | Some ls1 \<Rightarrow>
               (case markUserAsVoted b ls1 aadhar of
                  None \<Rightarrow> (False, ls1)
                | Some ls2 \<Rightarrow> (True, ls2)))
      | _ \<Rightarrow> (False, ls))"

text \<open>
  \<open>validateLogin\<close>: an argument is a string, or \<open>None\<close> for \<open>null\<close> and \<open>undefined\<close>.
  \<open>aadharRegex_test\<close> is \<^verbatim>\<open>/^\d{12}$/.test\<close>.
\<close>

record validation =
  valid :: bool
  message :: string

definition aadharRegex_test :: "string \<Rightarrow> bool" where
  "aadharRegex_test s = (length s = 12 \<and> list_all isDigit s)"

definition validateLogin :: "string option \<Rightarrow> string option \<Rightarrow> validation" where
  "validateLogin aadhar password =
     (case aadhar of
        None \<Rightarrow> \<lparr>valid = False, message = ''Please enter your Aadhar Number.''\<rparr>
      | Some a \<Rightarrow>
          if a = [] \<or> js_trim a = [] then
            \<lparr>valid = False, message = ''Please enter your Aadhar Number.''\<rparr>
          else
            (case password of
               None \<Rightarrow> \<lparr>valid = False, message = ''Please enter your Password.''\<rparr>
             | Some p \<Rightarrow>
                 if p = [] \<or> js_trim p = [] then
                   \<lparr>valid = False, message = ''Please enter your Password.''\<rparr>
                 else if \<not> aadharRegex_test (js_trim a) then
                   \<lparr>valid = False, message = ''Aadhar Number must be 12 digits.''\<rparr>
                 else \<lparr>valid = True, message = ''Login successful.''\<rparr>))"

section \<open>Observations and example pages\<close>

text \<open>
  A vote action for candidate \<open>n\<close>: the handler announces the vote for \<open>n\<close>, or puts
  the retry of the lookup of the button of \<open>n\<close> on its timer.
\<close>

definition votesFor :: "int \<Rightarrow> effect list \<Rightarrow> bool" where
  "votesFor n es =
     (Speak (''Voting for candidate '' @ show_int n @ ''...'') \<in> set es
      \<or> SetTimeout (RetryFindVote n) 200 \<in> set es)"

text \<open>
  The effects that start or restart the recognition engine, at once or from a timer,
  and the effects that touch the engine at all. A run is \<open>quiet\<close> when it has none of
  the latter.
\<close>

fun restartEffect :: "effect \<Rightarrow> bool" where
  "restartEffect (SetTimeout RestartIfAlwaysOn ms) = True"
| "restartEffect (SetTimeout RestartRecognition ms) = True"
| "restartEffect NewRecognition = True"
| "restartEffect RecognitionStart = True"
| "restartEffect e = False"

definition engineEffect :: "effect \<Rightarrow> bool" where
  "engineEffect e = (restartEffect e \<or> e = RecognitionStop)"

definition quiet :: "run \<Rightarrow> bool" where
  "quiet r = list_all (\<lambda>e. \<not> engineEffect e) (fst r)"

text \<open>
  A page without any of the elements the handlers look for, and a voting page: the
  voting section (node 1) is shown, the candidates container is node 2, and candidate
  7 has the vote button \<open>vote-btn-7\<close> (node 17).
\<close>

definition blankPage :: surface where
  "blankPage =
     \<lparr>getElementById = (\<lambda>_. None), querySelector = (\<lambda>_. None),
      querySelectorAll = (\<lambda>_. []), elQuerySelector = (\<lambda>_ _. None),
      closest = (\<lambda>_ _. None), getAttribute = (\<lambda>_ _. None), el_id = (\<lambda>_. []),
      disabled = (\<lambda>_. False), style_display = (\<lambda>_. []), innerText = (\<lambda>_. []),
      textContent = (\<lambda>_. []), has_onclick = (\<lambda>_. False), has_redirectTo = True,
      has_clearSession = True, speech_supported = True, throws = (\<lambda>_. False)\<rparr>"

definition votingPage :: surface where
  "votingPage =
     blankPage\<lparr>getElementById :=
       (\<lambda>i. if i = ''voting-section'' then Some 1
            else if i = ''candidates-container'' then Some 2
            else if i = ''vote-btn-7'' then Some 17
            else None)\<rparr>"

text \<open>
  A page with the confirmation dialog open, on which the first two confirm lookups
  find nothing, the third finds node 31 and the fourth node 32, and the cancel button
  is found by its id (node 30).
\<close>

definition modalPage :: surface where
  "modalPage =
     blankPage\<lparr>getElementById := (\<lambda>i. if i = ''modal-cancel-btn'' then Some 30 else None),
               querySelector :=
                 (\<lambda>q. if q = ''#confirmation-modal [data-action=\"confirm\"]'' then Some 31
                      else if q = ''.modal-overlay .btn-success'' then Some 32
                      else None)\<rparr>"

text \<open>A login page whose login button (node 5) has a click handler that raises.\<close>

definition brokenLoginPage :: surface where
  "brokenLoginPage =
     blankPage\<lparr>getElementById := (\<lambda>i. if i = ''btn-login'' then Some 5 else None),
               throws := (\<lambda>e. e = Click 5)\<rparr>"

definition listeningSession :: session where
  "listeningSession =
     \<lparr>recognition = True, isListening = True, isAlwaysOn = True, currentPage = ''login''\<rparr>"

text \<open>
  A store that holds one earlier vote and the flag of its voter, and a browser whose
  store accepts every write. Its \<open>JSON.stringify\<close> writes numbers, strings without
  escapes, arrays and objects; its \<open>JSON.parse\<close> reads the text of the earlier votes
  and raises on every other text. Its clock stands one second after the epoch.
\<close>

fun intercalate :: "string \<Rightarrow> string list \<Rightarrow> string" where
  "intercalate sep [] = []"
| "intercalate sep [s] = s"
| "intercalate sep (s # t # ts) = s @ sep @ intercalate sep (t # ts)"

fun stringify :: "json \<Rightarrow> string" where
  "stringify JNull = ''null''"
| "stringify (JBool v) = (if v then ''true'' else ''false'')"
| "stringify (JNumber i) = show_int i"
| "stringify (JString s) = ''\"'' @ s @ ''\"''"
| "stringify (JArray vs) = ''['' @ intercalate '','' (map stringify vs) @ '']''"
| "stringify (JObject kvs) =
     ''{'' @ intercalate '','' (map (\<lambda>(k, v). ''\"'' @ k @ ''\":'' @ stringify v) kvs) @ ''}''"

definition earlierVote :: json where
  "earlierVote =
     JObject [(''aadhar'', JString ''111111111111''), (''candidate'', JString ''A''),
              (''timestamp'', JNumber 500), (''date'', JString ''1970-01-01T00:00:00.500Z'')]"

definition earlierStore :: storage where
  "earlierStore =
     [''votes'' \<mapsto> stringify (JArray [earlierVote]), ''has_voted_111111111111'' \<mapsto> ''true'']"

definition openBrowser :: browser where
  "openBrowser =
     \<lparr>JSON_parse = (\<lambda>s. if s = stringify (JArray [earlierVote]) then Some (JArray [earlierVote])
                        else None),
      JSON_stringify = stringify,
      setItem_throws = (\<lambda>_ _. False), Date_now = 1000,
      Date_toISOString = ''1970-01-01T00:00:01.000Z''\<rparr>"

section \<open>Normalisation (C7)\<close>

lemmas string_defs = js_trim_def js_toLowerCase_def toLowerCase_char_def isWordChar_def
  isWhiteSpace_def isDigit_def

lemma of_char_toLowerCase_char:
  "(of_char (toLowerCase_char c) :: nat) =
     (let n = (of_char c :: nat) in
      if (65 \<le> n \<and> n \<le> 90) \<or> (192 \<le> n \<and> n \<le> 222 \<and> n \<noteq> 215) then n + 32 else n)"
proof -
  have "(of_char c :: nat) < 256" by simp
  then show ?thesis
    by (simp add: toLowerCase_char_def Let_def)
qed

lemma toLowerCase_char_fix:
  assumes "isWordChar (toLowerCase_char c) \<or> isWhiteSpace (toLowerCase_char c)"
  shows "toLowerCase_char (toLowerCase_char c) = toLowerCase_char c"
proof -
  let ?m = "of_char (toLowerCase_char c) :: nat"
  have "\<not> ((65 \<le> ?m \<and> ?m \<le> 90) \<or> (192 \<le> ?m \<and> ?m \<le> 222 \<and> ?m \<noteq> 215))"
    using assms unfolding isWordChar_def isWhiteSpace_def of_char_toLowerCase_char Let_def
    by (auto split: if_splits)
  then show ?thesis
    unfolding toLowerCase_char_def[of "toLowerCase_char c"] Let_def by auto
qed

lemma set_js_trim: "set (js_trim s) \<subseteq> set s"
  unfolding js_trim_def
  by (metis set_dropWhileD set_rev subsetI)

lemma normalizeCommand_chars:
  assumes "c \<in> set (normalizeCommand u)"
  shows "(isWordChar c \<or> isWhiteSpace c) \<and> toLowerCase_char c = c"
proof -
  from assms have keep: "isWordChar c \<or> isWhiteSpace c"
    and mem: "c \<in> set (js_trim (js_toLowerCase u))"
    by (simp_all add: normalizeCommand_def)
  from mem set_js_trim have "c \<in> set (js_toLowerCase u)" by blast
  then obtain d where "c = toLowerCase_char d" by (auto simp: js_toLowerCase_def)
  with keep toLowerCase_char_fix show ?thesis by simp
qed

lemma normalizeCommand_twice:
  "normalizeCommand (normalizeCommand u) = js_trim (normalizeCommand u)"
proof -
  let ?x = "normalizeCommand u"
  have low: "js_toLowerCase ?x = ?x"
    unfolding js_toLowerCase_def using normalizeCommand_chars[of _ u] by (simp add: map_idI)
  have "filter (\<lambda>c. isWordChar c \<or> isWhiteSpace c) (js_trim ?x) = js_trim ?x"
    using normalizeCommand_chars[of _ u] set_js_trim[of ?x] by (auto simp: filter_id_conv)
  with low show ?thesis by (simp add: normalizeCommand_def[of ?x])
qed

text \<open>
  C7, as stated, fails: the utterance is trimmed before the punctuation is stripped, so
  stripping can uncover whitespace at an end. \<open>hi !\<close> is normalized to \<open>hi\<close> followed by
  a space, and normalizing that once more removes the space.
\<close>

theorem normalizeCommand_not_idempotent:
  "normalizeCommand ''hi !'' = ''hi '' \<and> normalizeCommand ''hi '' = ''hi''
   \<and> normalizeCommand (normalizeCommand ''hi !'') \<noteq> normalizeCommand ''hi !''"
  by (simp add: normalizeCommand_def string_defs)

text \<open>
  C7, amended: the normalized command is the utterance lower-cased, then trimmed, then
  stripped of every code unit that is neither a word character nor whitespace. Each of
  its code units is a word character or whitespace and is its own lower case, and
  normalizing a normalized command trims it once more and changes nothing else: it is
  the identity exactly on the normalized commands without whitespace at either end.
\<close>

theorem normalizeCommand_renormalized:
  "normalizeCommand u = filter (\<lambda>c. isWordChar c \<or> isWhiteSpace c) (js_trim (js_toLowerCase u))
   \<and> normalizeCommand (normalizeCommand u) = js_trim (normalizeCommand u)
   \<and> (\<forall>c \<in> set (normalizeCommand u).
        (isWordChar c \<or> isWhiteSpace c) \<and> toLowerCase_char c = c)"
  using normalizeCommand_twice normalizeCommand_chars normalizeCommand_def by blast

theorem normalizeCommand_renormalized_witness:
  "normalizeCommand (normalizeCommand ''Vote, for Candidate 7!'') = ''vote for candidate 7''
   \<and> normalizeCommand ''Vote, for Candidate 7!'' = ''vote for candidate 7''"
proof -
  have n: "normalizeCommand ''Vote, for Candidate 7!'' = ''vote for candidate 7''"
    by code_simp
  have t: "js_trim ''vote for candidate 7'' = ''vote for candidate 7''"
    by code_simp
  from normalizeCommand_renormalized [of "''Vote, for Candidate 7!''"]
  have "normalizeCommand (normalizeCommand ''Vote, for Candidate 7!'')
        = js_trim (normalizeCommand ''Vote, for Candidate 7!'')"
    by (rule conjunct1 [OF conjunct2])
  with n t show ?thesis by simp
qed

section \<open>Login validation (C10)\<close>

text \<open>
  C10: \<open>validateLogin\<close> answers \<open>valid\<close> exactly when the trimmed aadhar is twelve digits
  and the password is not empty after trimming; otherwise the message is that of the
  first failing check, in the order empty aadhar, empty password, format. The function
  is total and returns nothing but the validation record.
\<close>

theorem validateLogin_spec:
  "valid (validateLogin aadhar password) =
     ((\<exists>a. aadhar = Some a \<and> length (js_trim a) = 12 \<and> list_all isDigit (js_trim a))
      \<and> (\<exists>p. password = Some p \<and> js_trim p \<noteq> []))
   \<and> message (validateLogin aadhar password) =
     (if aadhar = None \<or> js_trim (the aadhar) = [] then ''Please enter your Aadhar Number.''
      else if password = None \<or> js_trim (the password) = [] then ''Please enter your Password.''
      else if \<not> (length (js_trim (the aadhar)) = 12 \<and> list_all isDigit (js_trim (the aadhar)))
      then ''Aadhar Number must be 12 digits.''
      else ''Login successful.'')"
proof -
  have e: "js_trim [] = []" by (simp add: js_trim_def)
  show ?thesis
    by (cases aadhar; cases password) (auto simp: validateLogin_def aadharRegex_test_def e)
qed

theorem validateLogin_spec_witness:
  "valid (validateLogin (Some '' 123456789012 '') (Some ''secret''))
   \<and> message (validateLogin (Some ''12345'') (Some ''secret'')) = ''Aadhar Number must be 12 digits.''
   \<and> message (validateLogin (Some '' '') None) = ''Please enter your Aadhar Number.''"
  using validateLogin_spec [of "Some '' 123456789012 ''" "Some ''secret''"]
    validateLogin_spec [of "Some ''12345''" "Some ''secret''"]
    validateLogin_spec [of "Some '' ''" None]
  by (simp add: string_defs)

section \<open>The candidate number of a command (C2)\<close>

lemma extractOrdinal_examples:
  "extractOrdinal ''vote for candidate 7'' = Some 7
   \<and> extractOrdinal ''choose three'' = Some 3
   \<and> extractOrdinal ''hello'' = None
   \<and> extractOrdinal ''three one'' = Some 1"
  by code_simp

text \<open>
  What the two loops compute together: a numeric match other than 0 is the result; the
  word table decides when nothing matched and also when the match is the number 0.
\<close>

lemma extractOrdinal_cases:
  "extractOrdinal c =
     (case numericMatch c of
        None \<Rightarrow> wordMatch c
      | Some n \<Rightarrow>
          if n = 0 then (case wordMatch c of Some w \<Rightarrow> Some w | None \<Rightarrow> Some 0)
          else Some n)"
  by (simp add: extractOrdinal_def falsy_def Let_def split: option.splits)

text \<open>
  C2: the word table is meant to be scanned only when no numeric pattern matched
  (line 517: "Check for word numbers if no numeric match"), but the test is
  \<^verbatim>\<open>!candidateNumber\<close>, which also holds for a matched number 0. In
  \<open>candidate 0 two\<close> the first pattern matches and captures 0; the table is scanned all
  the same, the result is 2, and the handler goes on to vote for candidate 2.
\<close>

theorem extractOrdinal_zero_scans_words:
  "numericMatch ''candidate 0 two'' = Some 0
   \<and> extractOrdinal ''candidate 0 two'' = Some 2
   \<and> fst (handleVotingCommands blankPage ''candidate 0 two'') = [SetTimeout (RetryFindVote 2) 200]"
  by code_simp

section \<open>Routing (C3)\<close>

text \<open>
  C3: when the verify-identity control, the voting section or the candidates container
  is on the page, the router hands the normalized command to the voting handler,
  whatever the stored page is; when none of them is, the stored page selects the
  handler (and an unknown page selects none).
\<close>

theorem handleVoiceCommand_routing:
  "(getElementById d ''btn-verify-face'' \<noteq> None \<or> getElementById d ''voting-section'' \<noteq> None
      \<or> getElementById d ''candidates-container'' \<noteq> None
     \<longrightarrow> handleVoiceCommand d page command = handleVotingCommands d (normalizeCommand command))
   \<and> (getElementById d ''btn-verify-face'' = None \<and> getElementById d ''voting-section'' = None
      \<and> getElementById d ''candidates-container'' = None
     \<longrightarrow> handleVoiceCommand d page command =
         (if page = ''login'' then handleLoginCommands d (normalizeCommand command)
          else if page = ''home'' then handleHomeCommands d (normalizeCommand command)
          else if page = ''voting'' then handleVotingCommands d (normalizeCommand command)
          else if page = ''face-verification'' then
            handleFaceVerificationCommands d (normalizeCommand command)
          else skip))"
  by (simp add: handleVoiceCommand_def Let_def)

theorem handleVoiceCommand_routing_witness:
  "handleVoiceCommand votingPage ''home'' ''Seven... 7!''
     = ([Speak ''Voting for candidate 7...'', SetTimeout (ClickVoteGuarded 17) 300], False)
   \<and> handleVoiceCommand blankPage ''login'' ''Back!'' = ([Speak ''You are on the login page.''], False)"
proof -
  have v: "handleVotingCommands votingPage (normalizeCommand ''Seven... 7!'')
           = ([Speak ''Voting for candidate 7...'', SetTimeout (ClickVoteGuarded 17) 300], False)"
    by code_simp
  have h: "handleLoginCommands blankPage (normalizeCommand ''Back!'')
           = ([Speak ''You are on the login page.''], False)"
    by code_simp
  have m: "getElementById votingPage ''voting-section'' \<noteq> None"
    by (simp add: votingPage_def)
  have b: "getElementById blankPage ''btn-verify-face'' = None
           \<and> getElementById blankPage ''voting-section'' = None
           \<and> getElementById blankPage ''candidates-container'' = None"
    by (simp add: blankPage_def)
  from handleVoiceCommand_routing [of votingPage "''home''" "''Seven... 7!''"] m v
       handleVoiceCommand_routing [of blankPage "''login''" "''Back!''"] b h
  show ?thesis by simp
qed

section \<open>The voted flag and the vote store (C9)\<close>

text \<open>
  C9: \<open>hasUserVoted\<close> is true exactly when the flag stored for the user is the string
  \<open>true\<close>, so it is false where the flag was never set. \<open>markUserAsVoted\<close> writes that
  flag unless the store refuses the write, and once it has returned \<open>hasUserVoted\<close> is
  true. \<open>storeVote\<close> returns \<open>true\<close> exactly when the stored votes (the empty array
  where nothing is stored) parse to an array and the store accepts both writes. The
  store it then leaves is the old one with, under \<open>votes\<close>, the text of the old array
  with the new record (aadhar, candidate, timestamp, date) appended at its end, and
  with the flag of the user set, so \<open>hasUserVoted\<close> is true.
\<close>

theorem voted_flag:
  "hasUserVoted ls a = (ls (''has_voted_'' @ a) = Some ''true'')
   \<and> (ls (''has_voted_'' @ a) = None \<longrightarrow> \<not> hasUserVoted ls a)
   \<and> markUserAsVoted b ls a =
       (if setItem_throws b (''has_voted_'' @ a) ''true'' then None
        else Some (ls(''has_voted_'' @ a \<mapsto> ''true'')))
   \<and> (markUserAsVoted b ls a = Some ls1 \<longrightarrow> hasUserVoted ls1 a)
   \<and> (let stored = (case ls ''votes'' of
                       None \<Rightarrow> Some (JArray [])
                     | Some txt \<Rightarrow> if txt = [] then Some (JArray []) else JSON_parse b txt);
            written = (\<lambda>votes. JSON_stringify b (JArray (votes @
                         [JObject [(''aadhar'', JString a), (''candidate'', c),
                                   (''timestamp'', JNumber (Date_now b)),
                                   (''date'', JString (Date_toISOString b))]])))
        in (fst (storeVote b ls a c) \<longleftrightarrow>
              (\<exists>votes. stored = Some (JArray votes)
                 \<and> \<not> setItem_throws b ''votes'' (written votes)
                 \<and> \<not> setItem_throws b (''has_voted_'' @ a) ''true''))
           \<and> (storeVote b ls a c = (True, ls2) \<longrightarrow>
                (\<exists>votes. stored = Some (JArray votes)
                   \<and> ls2 = ls(''votes'' \<mapsto> written votes, ''has_voted_'' @ a \<mapsto> ''true'')
                   \<and> ls2 ''votes'' = Some (written votes))
                \<and> hasUserVoted ls2 a))"
proof -
  have k: "''has_voted_'' @ a \<noteq> ''votes''" by simp
  have 1: "hasUserVoted ls a = (ls (''has_voted_'' @ a) = Some ''true'')"
    by (simp add: hasUserVoted_def HAS_VOTED_PREFIX_def)
  have 3: "markUserAsVoted b ls a =
       (if setItem_throws b (''has_voted_'' @ a) ''true'' then None
        else Some (ls(''has_voted_'' @ a \<mapsto> ''true'')))" for ls
    by (simp add: markUserAsVoted_def setItem_def HAS_VOTED_PREFIX_def)
  have 4: "markUserAsVoted b ls a = Some ls1 \<longrightarrow> hasUserVoted ls1 a"
    by (auto simp: 3 hasUserVoted_def HAS_VOTED_PREFIX_def split: if_splits)
  define stored where "stored = (case ls ''votes'' of
                       None \<Rightarrow> Some (JArray [])
                     | Some txt \<Rightarrow> if txt = [] then Some (JArray []) else JSON_parse b txt)"
  define written where "written = (\<lambda>votes. JSON_stringify b (JArray (votes @
                         [JObject [(''aadhar'', JString a), (''candidate'', c),
                                   (''timestamp'', JNumber (Date_now b)),
                                   (''date'', JString (Date_toISOString b))]])))"
  have g: "getVotes b ls = stored"
    by (simp add: getVotes_def stored_def VOTES_def)
  have sv: "storeVote b ls a c =
      (case stored of
         Some (JArray votes) \<Rightarrow>
           if setItem_throws b ''votes'' (written votes) then (False, ls)
           else if setItem_throws b (''has_voted_'' @ a) ''true''
             then (False, ls(''votes'' \<mapsto> written votes))
             else (True, ls(''votes'' \<mapsto> written votes, ''has_voted_'' @ a \<mapsto> ''true''))
       | _ \<Rightarrow> (False, ls))"
    by (simp add: storeVote_def g 3 setItem_def VOTES_def voteRecord_def written_def
        split: option.splits json.splits)
  have 5: "fst (storeVote b ls a c) \<longleftrightarrow>
              (\<exists>votes. stored = Some (JArray votes)
                 \<and> \<not> setItem_throws b ''votes'' (written votes)
                 \<and> \<not> setItem_throws b (''has_voted_'' @ a) ''true'')"
    by (auto simp: sv split: option.splits json.splits)
  have 6: "storeVote b ls a c = (True, ls2) \<longrightarrow>
                (\<exists>votes. stored = Some (JArray votes)
                   \<and> ls2 = ls(''votes'' \<mapsto> written votes, ''has_voted_'' @ a \<mapsto> ''true'')
                   \<and> ls2 ''votes'' = Some (written votes))
                \<and> hasUserVoted ls2 a"
    using k by (auto simp: sv hasUserVoted_def HAS_VOTED_PREFIX_def split: option.splits json.splits if_splits)
  from 1 3 [of ls] 4 5 6 show ?thesis
    unfolding Let_def stored_def written_def by simp
qed

theorem voted_flag_witness:
  "fst (storeVote openBrowser earlierStore ''222222222222'' (JString ''B''))
   \<and> snd (storeVote openBrowser earlierStore ''222222222222'' (JString ''B'')) ''votes''
       = Some (''[{\"aadhar\":\"111111111111\",\"candidate\":\"A\",\"timestamp\":500,''
               @ ''\"date\":\"1970-01-01T00:00:00.500Z\"},''
               @ ''{\"aadhar\":\"222222222222\",\"candidate\":\"B\",\"timestamp\":1000,''
               @ ''\"date\":\"1970-01-01T00:00:01.000Z\"}]'')
   \<and> hasUserVoted (snd (storeVote openBrowser earlierStore ''222222222222'' (JString ''B'')))
        ''222222222222''
   \<and> \<not> hasUserVoted earlierStore ''222222222222''
   \<and> hasUserVoted earlierStore ''111111111111''
   \<and> hasUserVoted (the (markUserAsVoted openBrowser Map.empty ''333333333333'')) ''333333333333''
   \<and> \<not> fst (storeVote openBrowser (earlierStore(''votes'' \<mapsto> ''not json'')) ''222222222222''
             (JString ''B''))"
proof -
  let ?a = "''222222222222''"
  let ?c = "JString ''B''"
  let ?new = "JObject [(''aadhar'', JString ?a), (''candidate'', ?c),
                       (''timestamp'', JNumber (Date_now openBrowser)),
                       (''date'', JString (Date_toISOString openBrowser))]"
  define ls2 where "ls2 = snd (storeVote openBrowser earlierStore ?a ?c)"
  have wr: "JSON_stringify openBrowser (JArray ([earlierVote] @ [?new]))
       = ''[{\"aadhar\":\"111111111111\",\"candidate\":\"A\",\"timestamp\":500,''
               @ ''\"date\":\"1970-01-01T00:00:00.500Z\"},''
               @ ''{\"aadhar\":\"222222222222\",\"candidate\":\"B\",\"timestamp\":1000,''
               @ ''\"date\":\"1970-01-01T00:00:01.000Z\"}]''"
    by code_simp
  have ne: "stringify (JArray [earlierVote]) \<noteq> []" by simp
  have old: "(case earlierStore ''votes'' of
                None \<Rightarrow> Some (JArray [])
              | Some txt \<Rightarrow> if txt = [] then Some (JArray []) else JSON_parse openBrowser txt)
             = Some (JArray [earlierVote])"
    using ne by (simp add: earlierStore_def openBrowser_def)
  have acc: "\<not> setItem_throws openBrowser k v" for k v by (simp add: openBrowser_def)
  note vf = voted_flag [of earlierStore ?a openBrowser _ ?c ls2, unfolded Let_def old]
  from vf acc have ok: "fst (storeVote openBrowser earlierStore ?a ?c)" by blast
  then have eq: "storeVote openBrowser earlierStore ?a ?c = (True, ls2)"
    by (simp add: ls2_def prod_eq_iff)
  from vf eq have w: "ls2 ''votes'' = Some (JSON_stringify openBrowser (JArray ([earlierVote] @ [?new])))"
    and v: "hasUserVoted ls2 ?a" by auto
  have n: "\<not> hasUserVoted earlierStore ?a"
    using voted_flag [of earlierStore ?a openBrowser] by (simp add: earlierStore_def)
  have e: "hasUserVoted earlierStore ''111111111111''"
    using voted_flag [of earlierStore "''111111111111''" openBrowser] by (simp add: earlierStore_def)
  define ls1 where "ls1 = the (markUserAsVoted openBrowser Map.empty ''333333333333'')"
  have mk: "markUserAsVoted openBrowser Map.empty ''333333333333'' = Some ls1"
    unfolding ls1_def using voted_flag [of Map.empty "''333333333333''" openBrowser] acc
    by simp
  from voted_flag [of Map.empty "''333333333333''" openBrowser ls1] mk
  have "hasUserVoted ls1 ''333333333333''" by blast
  then have m: "hasUserVoted (the (markUserAsVoted openBrowser Map.empty ''333333333333''))
                  ''333333333333''"
    by (simp add: ls1_def)
  have bad: "(case (earlierStore(''votes'' \<mapsto> ''not json'')) ''votes'' of
                None \<Rightarrow> Some (JArray [])
              | Some txt \<Rightarrow> if txt = [] then Some (JArray []) else JSON_parse openBrowser txt)
             = None"
    by (simp add: openBrowser_def)
  have f: "\<not> fst (storeVote openBrowser (earlierStore(''votes'' \<mapsto> ''not json'')) ?a ?c)"
    using voted_flag [of "earlierStore(''votes'' \<mapsto> ''not json'')" ?a openBrowser _ ?c,
        unfolded Let_def bad] by simp
  from ok w v n e m f show ?thesis
    unfolding ls2_def wr by blast
qed

section \<open>The retry of the vote-button lookup (C4)\<close>

text \<open>
  C4: when the first lookup of the vote button finds nothing, the handler does nothing
  but put one retry on a timer of 200 ms. When the retry fires and finds the button, it
  announces the vote and schedules the click; when it finds nothing, it says that the
  candidate was not found. The retry never schedules another retry.
\<close>

theorem vote_retry:
  "(findVoteButton d1 n = None \<longrightarrow>
      voteForCandidate d1 n = ([SetTimeout (RetryFindVote n) 200], False))
   \<and> (findVoteButton d2 n = Some voteBtn \<longrightarrow>
      fire d2 s (RetryFindVote n) =
        ([Speak (''Voting for candidate '' @ show_int n @ ''...''),
          SetTimeout (ClickVote voteBtn) 300], False))
   \<and> (findVoteButton d2 n = None \<longrightarrow>
      fire d2 s (RetryFindVote n) =
        ([Speak (''Candidate '' @ show_int n
                 @ '' not found. Please check the candidate list or try again.'')], False))
   \<and> (\<forall>m ms. SetTimeout (RetryFindVote m) ms \<notin> set (fst (fire d2 s (RetryFindVote n))))
   \<and> fire d3 s3 (ClickVote voteBtn) = ([Click voteBtn], throws d3 (Click voteBtn))"
  by (cases "findVoteButton d2 n")
     (simp_all add: voteForCandidate_def fire_def emit_def speak_def perform_def)

theorem vote_retry_witness:
  "voteForCandidate blankPage 7 = ([SetTimeout (RetryFindVote 7) 200], False)
   \<and> fire votingPage listeningSession (RetryFindVote 7) =
        ([Speak ''Voting for candidate 7...'', SetTimeout (ClickVote 17) 300], False)
   \<and> fire blankPage listeningSession (RetryFindVote 7) =
        ([Speak ''Candidate 7 not found. Please check the candidate list or try again.''], False)"
proof -
  have b: "findVoteButton blankPage 7 = None" by code_simp
  have v: "findVoteButton votingPage 7 = Some 17" by code_simp
  have n: "show_int 7 = ''7''" by code_simp
  from vote_retry [of blankPage 7 votingPage 17 listeningSession]
       vote_retry [of blankPage 7 blankPage 17 listeningSession] b v n
  show ?thesis by simp
qed

section \<open>The handlers leave the recognition engine alone\<close>

lemma quiet_skip [simp]: "quiet skip"
  by (simp add: quiet_def skip_def)

lemma quiet_emit [simp]: "quiet (emit e) = (\<not> engineEffect e)"
  by (simp add: quiet_def emit_def)

lemma quiet_speak [simp]: "quiet (speak t)"
  by (simp add: speak_def engineEffect_def)

lemma quiet_perform [simp]: "quiet (perform d e) = (\<not> engineEffect e)"
  by (simp add: quiet_def perform_def)

lemma quiet_andThen: "quiet a \<Longrightarrow> quiet b \<Longrightarrow> quiet (andThen a b)"
  by (cases a; cases b; cases "snd a") (auto simp: quiet_def)

lemma quiet_tryCatch: "quiet a \<Longrightarrow> quiet b \<Longrightarrow> quiet (tryCatch a b)"
  by (cases a; cases b; cases "snd a") (auto simp: quiet_def)

lemma engineEffect_simps [simp]:
  "\<not> engineEffect (Click n)" "\<not> engineEffect (SetValue n v)" "\<not> engineEffect (RedirectTo u)"
  "\<not> engineEffect (SetLocation u)" "\<not> engineEffect ClearSession"
  "\<not> engineEffect (SetTimeout (RetryFindVote i) ms)"
  "\<not> engineEffect (SetTimeout (ClickVoteGuarded n) ms)"
  "\<not> engineEffect (SetTimeout (ClickConfirmGuarded n) ms)"
  by (simp_all add: engineEffect_def)

lemma quiet_handleLoginCommands: "quiet (handleLoginCommands d c)"
  by (auto simp: handleLoginCommands_def intro!: quiet_andThen split: option.splits)

lemma quiet_readPageContent: "quiet (readPageContent d)"
  by (auto simp: readPageContent_def Let_def split: option.splits)

lemma quiet_handleLogoutCommand: "quiet (handleLogoutCommand d)"
  by (auto simp: handleLogoutCommand_def intro!: quiet_andThen)

lemma quiet_handleHomeCommands: "quiet (handleHomeCommands d c)"
  by (auto simp: handleHomeCommands_def quiet_readPageContent quiet_handleLogoutCommand
      intro!: quiet_andThen split: option.splits)

lemma quiet_handleFaceVerificationCommands: "quiet (handleFaceVerificationCommands d c)"
  by (auto simp: handleFaceVerificationCommands_def intro!: quiet_andThen split: option.splits)

lemma quiet_verifyIdentity: "quiet (verifyIdentity d)"
  by (auto simp: verifyIdentity_def Let_def intro!: quiet_andThen split: option.splits)

lemma quiet_confirmVote: "quiet (confirmVote d)"
  by (auto simp: confirmVote_def intro!: quiet_andThen split: option.splits)

lemma quiet_voteForCandidate: "quiet (voteForCandidate d n)"
  by (auto simp: voteForCandidate_def intro!: quiet_andThen split: option.splits)

lemma quiet_otherVotingCommands: "quiet (otherVotingCommands d c)"
  by (auto simp: otherVotingCommands_def readCandidateList_def goBack_def votingHelp_def Let_def
      intro!: quiet_andThen)

lemma quiet_afterCancel: "quiet (afterCancel d c)"
  by (auto simp: afterCancel_def quiet_voteForCandidate quiet_otherVotingCommands
      split: option.splits)

lemma quiet_handleVotingCommands: "quiet (handleVotingCommands d c)"
  by (auto simp: handleVotingCommands_def quiet_verifyIdentity quiet_confirmVote quiet_afterCancel
      intro!: quiet_andThen split: option.splits)

lemma quiet_handleVoiceCommand: "quiet (handleVoiceCommand d p c)"
  by (simp add: handleVoiceCommand_def Let_def quiet_handleVotingCommands
      quiet_handleLoginCommands quiet_handleHomeCommands quiet_handleFaceVerificationCommands)

lemma quiet_onresult: "quiet (snd (onresult d ts s))"
  by (simp add: onresult_def Let_def quiet_tryCatch quiet_handleVoiceCommand)

section \<open>The error transition of the listening session (C6)\<close>











section \<open>Dispatch failures stay inside the result callback (C8)\<close>

text \<open>
  C8: the result callback leaves the session as it was and no exception leaves it. When
  the dispatch of the command raises, the effects are those of the dispatch up to the
  raise, followed by the spoken apology; otherwise they are those of the dispatch. In
  both cases the callback neither stops nor restarts the recognition engine.
\<close>

theorem onresult_catches:
  "fst (onresult d ts s) = s
   \<and> \<not> snd (snd (onresult d ts s))
   \<and> fst (snd (onresult d ts s)) =
       (let h = handleVoiceCommand d (currentPage s) (js_trim (js_join ts))
        in if snd h then
             fst h @ [Speak ''Sorry, there was an error processing your command. Please try again.'']
           else fst h)
   \<and> list_all (\<lambda>e. \<not> engineEffect e) (fst (snd (onresult d ts s)))"
proof -
  obtain es raised where h: "handleVoiceCommand d (currentPage s) (js_trim (js_join ts)) = (es, raised)"
    by (cases "handleVoiceCommand d (currentPage s) (js_trim (js_join ts))")
  have "list_all (\<lambda>e. \<not> engineEffect e) (fst (snd (onresult d ts s)))"
    using quiet_onresult [of d ts s] by (simp add: quiet_def)
  with h show ?thesis
    by (cases raised) (simp_all add: onresult_def Let_def speak_def emit_def)
qed

theorem onresult_catches_witness:
  "onresult brokenLoginPage [''Log in.''] listeningSession
     = (listeningSession,
        [Speak ''Logging in...'', Click 5,
         Speak ''Sorry, there was an error processing your command. Please try again.''],
        False)"
proof -
  have h: "handleVoiceCommand brokenLoginPage ''login'' (js_trim (js_join [''Log in.'']))
           = ([Speak ''Logging in...'', Click 5], True)"
    by code_simp
  have p: "currentPage listeningSession = ''login''" by (simp add: listeningSession_def)
  from onresult_catches [of brokenLoginPage "[''Log in.'']" listeningSession] h p
  show ?thesis by (simp add: prod_eq_iff)
qed

section \<open>The confirm and cancel chains (C5)\<close>

lemma firstFound_None_iff: "firstFound xs = None \<longleftrightarrow> (\<forall>x \<in> set xs. x = None)"
  by (induction xs rule: firstFound.induct) auto

lemma firstFound_Some_iff:
  "firstFound xs = Some b \<longleftrightarrow>
     (\<exists>i < length xs. xs ! i = Some b \<and> (\<forall>j < i. xs ! j = None))"
proof (induction xs rule: firstFound.induct)
  case 1
  then show ?case by simp
next
  case (2 x rest)
  show ?case
  proof
    assume "firstFound (Some x # rest) = Some b"
    then have "(Some x # rest) ! 0 = Some b \<and> (\<forall>j < 0. (Some x # rest) ! j = None)" by simp
    then show "\<exists>i < length (Some x # rest). (Some x # rest) ! i = Some b
        \<and> (\<forall>j < i. (Some x # rest) ! j = None)" by blast
  next
    assume "\<exists>i < length (Some x # rest). (Some x # rest) ! i = Some b
        \<and> (\<forall>j < i. (Some x # rest) ! j = None)"
    then obtain i where i: "(Some x # rest) ! i = Some b" "\<forall>j < i. (Some x # rest) ! j = None"
      by blast
    have "i = 0"
    proof (rule ccontr)
      assume "i \<noteq> 0"
      with i(2) have "(Some x # rest) ! 0 = None" by blast
      then show False by simp
    qed
    with i(1) show "firstFound (Some x # rest) = Some b" by simp
  qed
next
  case (3 rest)
  show ?case
  proof
    assume "firstFound (None # rest) = Some b"
    with 3 obtain i where i: "i < length rest" "rest ! i = Some b" "\<forall>j < i. rest ! j = None"
      by auto
    have "\<forall>j < Suc i. (None # rest) ! j = None"
      using i(3) by (auto simp: nth_Cons split: nat.splits)
    with i(1,2) show "\<exists>i < length (None # rest). (None # rest) ! i = Some b
        \<and> (\<forall>j < i. (None # rest) ! j = None)"
      by (intro exI [of _ "Suc i"]) simp
  next
    assume "\<exists>i < length (None # rest). (None # rest) ! i = Some b
        \<and> (\<forall>j < i. (None # rest) ! j = None)"
    then obtain i where i: "i < length (None # rest)" "(None # rest) ! i = Some b"
      "\<forall>j < i. (None # rest) ! j = None" by blast
    from i(2) obtain k where k: "i = Suc k" by (cases i) auto
    with i have "k < length rest" "rest ! k = Some b" by auto
    moreover have "\<forall>j < k. rest ! j = None"
    proof (intro allI impI)
      fix j assume "j < k"
      with k i(3) have "(None # rest) ! Suc j = None" by auto
      then show "rest ! j = None" by simp
    qed
    ultimately have "firstFound rest = Some b" using 3 by blast
    then show "firstFound (None # rest) = Some b" by simp
  qed
qed

text \<open>
  C5, as stated, fails in its last part: on a page without the dialog and without a
  shown voting section, the five confirm lookups find nothing and the handler returns
  without a word.
\<close>

theorem confirm_silently_dropped:
  "findConfirmButton blankPage = None
   \<and> handleVotingCommands blankPage ''confirm'' = ([], False)"
  by code_simp

text \<open>
  C5, amended: the confirm and the cancel button are each looked up by a chain of five
  lookups, from the element id to a class inside a generic container, and the first
  lookup that finds an element wins. A confirm command with a button announces the
  confirmation and schedules the click. When the confirm chain finds nothing, the
  handler speaks a prompt to select a candidate first if the voting section is on the
  page and shown, and does nothing otherwise. A cancel command with a button says so
  and clicks it; when the cancel chain finds nothing, nothing is said about it and the
  handler goes on with the later commands (vote, list, back, help) for the utterance.
\<close>

theorem modal_chains:
  "length (confirmLookups d) = 5 \<and> length (cancelLookups d) = 5
   \<and> (findConfirmButton d = Some b \<longleftrightarrow>
        (\<exists>i < 5. confirmLookups d ! i = Some b \<and> (\<forall>j < i. confirmLookups d ! j = None)))
   \<and> (findCancelButton d = Some b \<longleftrightarrow>
        (\<exists>i < 5. cancelLookups d ! i = Some b \<and> (\<forall>j < i. cancelLookups d ! j = None)))
   \<and> (\<not> verifyCommand c \<and> confirmCommand c \<longrightarrow>
        handleVotingCommands d c =
          (case findConfirmButton d of
             Some confirmBtn \<Rightarrow>
               ([Speak ''Confirming your vote...'',
                 SetTimeout (ClickConfirmGuarded confirmBtn) 300], False)
           | None \<Rightarrow>
               if votingVisible d then
                 ([Speak (''Please select a candidate first by saying \"Vote for candidate\" ''
                          @ ''followed by the number.'')], False)
               else ([], False)))
   \<and> (\<not> verifyCommand c \<and> \<not> confirmCommand c \<and> cancelCommand c \<longrightarrow>
        handleVotingCommands d c =
          (case findCancelButton d of
             Some cancelBtn \<Rightarrow>
               ([Speak ''Vote cancelled.'', Click cancelBtn], throws d (Click cancelBtn))
           | None \<Rightarrow> afterCancel d c))"
proof -
  have l: "length (confirmLookups d) = 5" "length (cancelLookups d) = 5"
    by (simp_all add: confirmLookups_def cancelLookups_def)
  have a: "findConfirmButton d = Some b \<longleftrightarrow>
        (\<exists>i < 5. confirmLookups d ! i = Some b \<and> (\<forall>j < i. confirmLookups d ! j = None))"
    using firstFound_Some_iff [of "confirmLookups d" b] l by (simp add: findConfirmButton_def)
  have k: "findCancelButton d = Some b \<longleftrightarrow>
        (\<exists>i < 5. cancelLookups d ! i = Some b \<and> (\<forall>j < i. cancelLookups d ! j = None))"
    using firstFound_Some_iff [of "cancelLookups d" b] l by (simp add: findCancelButton_def)
  have h1: "\<not> verifyCommand c \<and> confirmCommand c \<longrightarrow>
        handleVotingCommands d c =
          (case findConfirmButton d of
             Some confirmBtn \<Rightarrow>
               ([Speak ''Confirming your vote...'',
                 SetTimeout (ClickConfirmGuarded confirmBtn) 300], False)
           | None \<Rightarrow>
               if votingVisible d then
                 ([Speak (''Please select a candidate first by saying \"Vote for candidate\" ''
                          @ ''followed by the number.'')], False)
               else ([], False))"
    by (simp add: handleVotingCommands_def confirmVote_def speak_def emit_def skip_def
        split: option.splits)
  have h2: "\<not> verifyCommand c \<and> \<not> confirmCommand c \<and> cancelCommand c \<longrightarrow>
        handleVotingCommands d c =
          (case findCancelButton d of
             Some cancelBtn \<Rightarrow>
               ([Speak ''Vote cancelled.'', Click cancelBtn], throws d (Click cancelBtn))
           | None \<Rightarrow> afterCancel d c)"
    by (simp add: handleVotingCommands_def speak_def emit_def perform_def split: option.splits)
  from l a k h1 h2 show ?thesis by blast
qed

theorem modal_chains_witness:
  "handleVotingCommands modalPage ''yes''
     = ([Speak ''Confirming your vote...'', SetTimeout (ClickConfirmGuarded 31) 300], False)
   \<and> handleVotingCommands modalPage ''cancel'' = ([Speak ''Vote cancelled.'', Click 30], False)
   \<and> handleVotingCommands votingPage ''confirm''
     = ([Speak ''Please select a candidate first by saying \"Vote for candidate\" followed by the number.''],
        False)"
proof -
  have c: "\<not> verifyCommand ''yes'' \<and> confirmCommand ''yes''" by code_simp
  have c': "\<not> verifyCommand ''confirm'' \<and> confirmCommand ''confirm''" by code_simp
  have k: "\<not> verifyCommand ''cancel'' \<and> \<not> confirmCommand ''cancel'' \<and> cancelCommand ''cancel''"
    by code_simp
  have f: "findConfirmButton modalPage = Some 31" by code_simp
  have g: "findCancelButton modalPage = Some 30" by code_simp
  have n: "findConfirmButton votingPage = None" by code_simp
  have v: "votingVisible votingPage" by code_simp
  have t: "\<not> throws modalPage (Click 30)" by (simp add: modalPage_def blankPage_def)
  from modal_chains [of modalPage 31 "''yes''"] modal_chains [of modalPage 30 "''cancel''"]
       modal_chains [of votingPage 0 "''confirm''"] c c' k f g n v t
  show ?thesis by simp
qed

section \<open>The vote gate (C1)\<close>

lemma votesFor_voteForCandidate: "votesFor n (fst (voteForCandidate d n))"
  by (cases "findVoteButton d n")
     (simp_all add: voteForCandidate_def votesFor_def emit_def speak_def)

lemma not_votesFor_otherVotingCommands: "\<not> votesFor n (fst (otherVotingCommands d c))"
  by (simp add: otherVotingCommands_def readCandidateList_def goBack_def votingHelp_def
      votesFor_def Let_def speak_def emit_def skip_def perform_def)

lemma not_votesFor_early:
  "\<not> votesFor k (fst (verifyIdentity d))"
  "\<not> votesFor k (fst (confirmVote d))"
  "\<not> votesFor k (fst (andThen (speak ''Vote cancelled.'') (perform d (Click cancelBtn))))"
  by (simp_all add: verifyIdentity_def confirmVote_def votesFor_def Let_def speak_def emit_def
      skip_def perform_def split: option.splits)

lemma votes_only_through_gate:
  assumes "votesFor k (fst (handleVotingCommands d c))"
  shows "\<exists>m. extractOrdinal c = Some m \<and> 1 \<le> m \<and> m \<le> 10 \<and> isVoteCommand d c m"
proof -
  from assms not_votesFor_early [of k d]
  have "votesFor k (fst (afterCancel d c))"
    by (auto simp: handleVotingCommands_def split: if_splits option.splits)
  with not_votesFor_otherVotingCommands [of k d c] show ?thesis
    by (auto simp: afterCancel_def split: if_splits option.splits)
qed

text \<open>
  C1, as stated, fails: the blocks for verification, confirmation and cancellation
  come before the vote block. \<open>yes 7\<close> on the voting page contains the ordinal 7 and
  passes the gate, but it is taken as a confirmation and no vote action is emitted.
\<close>

theorem vote_gate_skipped:
  "extractOrdinal ''yes 7'' = Some 7
   \<and> isVoteCommand votingPage ''yes 7'' 7
   \<and> \<not> votesFor 7 (fst (handleVotingCommands votingPage ''yes 7''))"
  by code_simp

text \<open>
  C1, amended: for a command that reaches the vote block (no verify keyword, no
  confirm keyword, and no cancel keyword while a cancel button is found) and whose
  candidate number \<open>n\<close> is between 1 and 10, the voting handler emits the vote action
  for \<open>n\<close> exactly when the command passes the gate, and otherwise goes on to the
  list, back and help commands. Whatever the command, a vote action is emitted only
  for a command with a candidate number between 1 and 10 that passes the gate. The
  bare command \<open>7\<close> on a page with the voting section shown is a vote for candidate 7;
  given to the home handler it gets the help message.
\<close>

theorem vote_gate:
  "(\<not> verifyCommand c \<and> \<not> confirmCommand c \<and> (cancelCommand c \<longrightarrow> findCancelButton d = None)
      \<and> extractOrdinal c = Some n \<and> 1 \<le> n \<and> n \<le> 10 \<longrightarrow>
        (votesFor n (fst (handleVotingCommands d c)) \<longleftrightarrow> isVoteCommand d c n)
        \<and> handleVotingCommands d c =
            (if isVoteCommand d c n then voteForCandidate d n else otherVotingCommands d c))
   \<and> (votesFor k (fst (handleVotingCommands d c)) \<longrightarrow>
        (\<exists>m. extractOrdinal c = Some m \<and> 1 \<le> m \<and> m \<le> 10 \<and> isVoteCommand d c m))
   \<and> (votingVisible d \<longrightarrow> handleVotingCommands d ''7'' = voteForCandidate d 7)
   \<and> handleHomeCommands d ''7'' =
        ([Speak ''Say \"Go to voting page\", \"Read rules\", \"Open profile\", or \"Log out\".''],
         False)"
proof (intro conjI impI)
  assume a: "\<not> verifyCommand c \<and> \<not> confirmCommand c
      \<and> (cancelCommand c \<longrightarrow> findCancelButton d = None)
      \<and> extractOrdinal c = Some n \<and> 1 \<le> n \<and> n \<le> 10"
  then have h: "handleVotingCommands d c =
            (if isVoteCommand d c n then voteForCandidate d n else otherVotingCommands d c)"
    by (auto simp: handleVotingCommands_def afterCancel_def)
  then show "handleVotingCommands d c =
            (if isVoteCommand d c n then voteForCandidate d n else otherVotingCommands d c)" .
  from h show "votesFor n (fst (handleVotingCommands d c)) \<longleftrightarrow> isVoteCommand d c n"
    using votesFor_voteForCandidate [of n d] not_votesFor_otherVotingCommands [of n d c]
    by simp
next
  assume "votesFor k (fst (handleVotingCommands d c))"
  then show "\<exists>m. extractOrdinal c = Some m \<and> 1 \<le> m \<and> m \<le> 10 \<and> isVoteCommand d c m"
    by (rule votes_only_through_gate)
next
  assume v: "votingVisible d"
  have e: "extractOrdinal ''7'' = Some 7" by code_simp
  have k: "\<not> verifyCommand ''7'' \<and> \<not> confirmCommand ''7'' \<and> \<not> cancelCommand ''7''" by code_simp
  from v e k show "handleVotingCommands d ''7'' = voteForCandidate d 7"
    by (simp add: handleVotingCommands_def afterCancel_def isVoteCommand_def)
next
  show "handleHomeCommands d ''7'' =
        ([Speak ''Say \"Go to voting page\", \"Read rules\", \"Open profile\", or \"Log out\".''],
         False)"
    by (simp add: handleHomeCommands_def speak_def emit_def)
qed

theorem vote_gate_witness:
  "handleVotingCommands votingPage ''7''
     = ([Speak ''Voting for candidate 7...'', SetTimeout (ClickVoteGuarded 17) 300], False)
   \<and> votesFor 7 (fst (handleVotingCommands votingPage ''candidate 7''))
   \<and> \<not> votesFor 7 (fst (handleVotingCommands blankPage ''candidate 7''))"
proof -
  have v: "votingVisible votingPage" by code_simp
  have r: "voteForCandidate votingPage 7
     = ([Speak ''Voting for candidate 7...'', SetTimeout (ClickVoteGuarded 17) 300], False)"
    by code_simp
  have k: "\<not> verifyCommand ''candidate 7'' \<and> \<not> confirmCommand ''candidate 7''
           \<and> \<not> cancelCommand ''candidate 7'' \<and> extractOrdinal ''candidate 7'' = Some 7"
    by code_simp
  have g: "isVoteCommand votingPage ''candidate 7'' 7" by code_simp
  have g': "\<not> isVoteCommand blankPage ''candidate 7'' 7" by code_simp
  from vote_gate [of "''candidate 7''" votingPage 7] v r
  have 1: "handleVotingCommands votingPage ''7''
     = ([Speak ''Voting for candidate 7...'', SetTimeout (ClickVoteGuarded 17) 300], False)"
    by simp
  have p: "\<not> verifyCommand ''candidate 7'' \<and> \<not> confirmCommand ''candidate 7''
      \<and> (cancelCommand ''candidate 7'' \<longrightarrow> findCancelButton pg = None)
      \<and> extractOrdinal ''candidate 7'' = Some 7 \<and> (1::int) \<le> 7 \<and> (7::int) \<le> 10" for pg
    using k by simp
  from vote_gate [of "''candidate 7''" votingPage 7, THEN conjunct1, THEN mp, OF p,
         THEN conjunct1] g
  have 2: "votesFor 7 (fst (handleVotingCommands votingPage ''candidate 7''))" by blast
  from vote_gate [of "''candidate 7''" blankPage 7, THEN conjunct1, THEN mp, OF p,
         THEN conjunct1] g'
  have 3: "\<not> votesFor 7 (fst (handleVotingCommands blankPage ''candidate 7''))" by blast
  from 1 2 3 show ?thesis by blast
qed

end
